theory Spec2Isabelle
  imports Main "HOL-Library.Signed_Division"
begin

section \<open>Data model\<close>

text \<open>
  The user-level thread library of \<^verbatim>\<open>src/ex2/uthreads.cpp\<close>. The library keeps its
  state in file-static globals: the thread manager (registry of thread records), the
  scheduler (ready queue and running id), the list of sleeping threads, the two timers
  and the counter \<^verbatim>\<open>totalQuants\<close>. The model passes that state explicitly.

  C \<^verbatim>\<open>int\<close> values (thread ids, quantum counts) are modelled by \<open>int\<close>: signed
  overflow of \<^verbatim>\<open>++\<close> is undefined in C++, so the model describes the runs with fewer
  than \<open>2^31\<close> quanta. Where the source narrows a wider value to \<^verbatim>\<open>int\<close> the
  wrap-around is written out (\<open>narrow_int\<close>).
\<close>

text \<open>\<^verbatim>\<open>class thread\<close> of \<^verbatim>\<open>thread.h\<close>: the stack buffer and the saved
  \<^verbatim>\<open>sigjmp_buf\<close> are machine state and are left out.\<close>

record thread =
  quants :: int
  isBlocked :: bool
  isSleeping :: bool

text \<open>\<^verbatim>\<open>struct timeval\<close>: seconds and microseconds.\<close>

record timeval =
  tv_sec :: int
  tv_usec :: int

text \<open>\<^verbatim>\<open>wake_up_info\<close>: an entry of the sleeping-threads list (fields \<^verbatim>\<open>id\<close> and
  \<^verbatim>\<open>awaken_tv\<close>).\<close>

record wake_up_info =
  id_w :: int
  awaken_tv :: timeval

record lib_state =
  threads :: "int \<rightharpoonup> thread"
  maxThreads :: nat
  quantum :: int
  ready :: "int list"
  running :: int
  sleepingThreads :: "wake_up_info list"
  vTimerStarts :: nat
  rTimer :: "int option"
  totalQuants :: int

text \<open>
  What the operating system answers during one call: whether each system call succeeds,
  and the readings of \<^verbatim>\<open>gettimeofday\<close> (the \<open>n\<close>-th reading of the call).
\<close>

record os_env =
  mask_ok :: bool
  unmask_ok :: bool
  vtimer_ok :: bool
  sigset_ok :: bool
  sigaction_ok :: bool
  alloc_ok :: bool
  gettimeofday :: "nat \<Rightarrow> timeval"

text \<open>
  The ways a call of the library ends: it returns a value to its caller, it hands the
  processor to another thread inside \<^verbatim>\<open>switchContext\<close> (the caller continues, and
  the call returns, only if that thread is resumed later), the process exits, or the
  call dereferences a null pointer. Each carries the lines written to \<^verbatim>\<open>std::cerr\<close>.
\<close>

datatype 'r outcome =
    Returned 'r "string list" lib_state
  | Switched "string list" lib_state
  | Exited int "string list"
  | Crashed

fun next_state :: "'r outcome \<Rightarrow> lib_state option" where
  "next_state (Returned r out s) = Some s"
| "next_state (Switched out s) = Some s"
| "next_state (Exited c out) = None"
| "next_state Crashed = None"

section \<open>Constants and small helpers of uthreads.cpp\<close>

definition CONVERT_CONST_SEC_TO_NSEC :: int where
  "CONVERT_CONST_SEC_TO_NSEC = 1000000000"

definition CONVERT_CONST_MSEC_TO_NSEC :: int where
  "CONVERT_CONST_MSEC_TO_NSEC = 1000"

definition sysError :: int where
  "sysError = -2"

definition libErrorSyntax :: string where
  "libErrorSyntax = ''thread library error: ''"

definition sysErrorSyntax :: string where
  "sysErrorSyntax = ''system error: ''"

text \<open>The signal numbers of Linux.\<close>

definition SIGALRM :: int where
  "SIGALRM = 14"

definition SIGVTALRM :: int where
  "SIGVTALRM = 26"

text \<open>Conversion of a wider integer to a 32-bit \<^verbatim>\<open>int\<close>: the value modulo \<open>2^32\<close>,
  read as a signed number.\<close>

definition narrow_int :: "int \<Rightarrow> int" where
  "narrow_int x = (x + 2147483648) mod 4294967296 - 2147483648"

text \<open>\<^verbatim>\<open>exitProg\<close>: release the library, print the system error, \<^verbatim>\<open>exit(1)\<close>.
  The first argument holds the lines the call has already written.\<close>

definition exitProg :: "string list \<Rightarrow> string \<Rightarrow> 'r outcome" where
  "exitProg out errMsg = Exited 1 (out @ [sysErrorSyntax @ errMsg])"

text \<open>\<^verbatim>\<open>maskSignals\<close> and \<^verbatim>\<open>unmaskSignals\<close>, each followed by the rest of the
  call. The signal mask itself belongs to the process and is not part of the model.\<close>

definition maskSignals :: "os_env \<Rightarrow> 'r outcome \<Rightarrow> 'r outcome" where
  "maskSignals os rest =
     (if mask_ok os then rest else exitProg [] ''Failed to set signal masking.'')"

definition unmaskSignals :: "os_env \<Rightarrow> string list \<Rightarrow> 'r outcome \<Rightarrow> 'r outcome" where
  "unmaskSignals os out rest =
     (if unmask_ok os then rest else exitProg out ''Failed to undo signal masking.'')"

text \<open>\<^verbatim>\<open>calcWakUpTimeval\<close>: the time of day at which the sleeper wakes;
  \<^verbatim>\<open>timeradd\<close> carries the microseconds into the seconds.\<close>

definition timeradd :: "timeval \<Rightarrow> timeval \<Rightarrow> timeval" where
  "timeradd a b =
     (let sec = tv_sec a + tv_sec b; usec = tv_usec a + tv_usec b
      in if usec \<ge> 1000000 then \<lparr>tv_sec = sec + 1, tv_usec = usec - 1000000\<rparr>
         else \<lparr>tv_sec = sec, tv_usec = usec\<rparr>)"

definition calcWakUpTimeval :: "timeval \<Rightarrow> int \<Rightarrow> timeval" where
  "calcWakUpTimeval now usecs_to_sleep =
     (let time_to_sleep = \<lparr>tv_sec = usecs_to_sleep sdiv 1000000,
                            tv_usec = usecs_to_sleep smod 1000000\<rparr>
      in timeradd now time_to_sleep)"

section \<open>The collaborators that are not in the sources\<close>

subsection \<open>Thread manager\<close>

text \<open>
  Modelled from the spec: \<^verbatim>\<open>thread_manager\<close> (thread_manager.h is not among the
  sources). Section 4.B: \<open>create\<close> allocates the smallest unused id in
  \<open>[1, MAX_THREAD_NUM)\<close> and fails with \<open>-1\<close> when the live count equals
  \<open>MAX_THREAD_NUM\<close>; \<open>kill\<close> removes the record; \<open>block\<close>, \<open>unblock\<close>, \<open>sleep\<close> and
  \<open>wake\<close> set or clear a flag and answer \<open>-1\<close> when no record exists, \<open>0\<close> otherwise
  (also when the flag already had that value). Section 3: a thread's quantum count
  starts at 0; thread 0 is created at init with quantum count 1. Section 4.G: the
  switch increments the quantum count of the thread switched to.

  The manager is constructed from \<^verbatim>\<open>(quantum_usecs, MAX_THREAD_NUM, STACK_SIZE)\<close>
  alone, before the scheduler and the sleeping list exist, and uthreads.cpp keeps both
  in file-static variables: \<open>killThread\<close> therefore touches the registry only. The
  ready queue is cleaned by \<^verbatim>\<open>whosNextTermination\<close>, and an entry of the sleeping list
  stays until the wake handler pops it (``if thread exists (active, haven't been
  terminated while sleeping)'' in \<^verbatim>\<open>handleSleepTimeout\<close>).
\<close>

text \<open>Modelled from the spec: the record that the absent \<^verbatim>\<open>thread\<close> constructor builds for a spawned
  thread; section 3: the quantum count starts at 0, no flag is set.\<close>

definition newThread :: thread where
  "newThread = \<lparr>quants = 0, isBlocked = False, isSleeping = False\<rparr>"

text \<open>Modelled from the spec: the record of thread 0 built by the absent
  \<^verbatim>\<open>threadManagerSetup\<close>; section 3: quantum count initialised to 1, immediately running.\<close>

definition mainThread :: thread where
  "mainThread = \<lparr>quants = 1, isBlocked = False, isSleeping = False\<rparr>"

text \<open>Modelled from the spec: the live count of the absent \<^verbatim>\<open>thread_manager\<close>, counted over the
  ids \<open>0 .. MAX_THREAD_NUM - 1\<close> (section 3: thread ids lie in that range).\<close>

definition liveCount :: "lib_state \<Rightarrow> nat" where
  "liveCount s = length (filter (\<lambda>i. threads s i \<noteq> None) (map int [0..<maxThreads s]))"

text \<open>Modelled from the spec: \<^verbatim>\<open>thread_manager::createThread\<close> (absent); section 4.B: fails with
  \<open>-1\<close> when the live count equals \<open>MAX_THREAD_NUM\<close>, otherwise takes the smallest unused id
  in \<open>[1, MAX_THREAD_NUM)\<close>; a failed stack allocation is \<^verbatim>\<open>sysError\<close>.\<close>

definition createThread :: "os_env \<Rightarrow> lib_state \<Rightarrow> int \<times> lib_state" where
  "createThread os s =
     (if liveCount s = maxThreads s then (-1, s)
      else case find (\<lambda>i. threads s i = None) (map int [1..<maxThreads s]) of
             None \<Rightarrow> (-1, s)
           | Some i \<Rightarrow>
               if alloc_ok os then (i, s\<lparr>threads := (threads s)(i \<mapsto> newThread)\<rparr>)
               else (sysError, s))"

text \<open>Modelled from the spec: \<^verbatim>\<open>thread_manager::killThread\<close> (absent); section 4.B: removes the
  record, \<open>-1\<close> when there is none. It has no access to the ready queue or to the sleeping
  list (see above): the first is cleaned by \<^verbatim>\<open>whosNextTermination\<close>, the second by the
  wake handler.\<close>

definition killThread :: "int \<Rightarrow> lib_state \<Rightarrow> int \<times> lib_state" where
  "killThread tid s =
     (case threads s tid of
        None \<Rightarrow> (-1, s)
      | Some t \<Rightarrow> (0, s\<lparr>threads := (threads s)(tid := None)\<rparr>))"

text \<open>Modelled from the spec: \<^verbatim>\<open>thread_manager::blockThread\<close> (absent); section 4.B: sets the
  blocked flag, \<open>-1\<close> when no record exists.\<close>

definition blockThread :: "int \<Rightarrow> lib_state \<Rightarrow> int \<times> lib_state" where
  "blockThread tid s =
     (case threads s tid of
        None \<Rightarrow> (-1, s)
      | Some t \<Rightarrow> (0, s\<lparr>threads := (threads s)(tid \<mapsto> t\<lparr>isBlocked := True\<rparr>)\<rparr>))"

text \<open>Modelled from the spec: \<^verbatim>\<open>thread_manager::unBlockThread\<close> (absent); section 4.B: clears
  the blocked flag, \<open>-1\<close> when no record exists.\<close>

definition unBlockThread :: "int \<Rightarrow> lib_state \<Rightarrow> int \<times> lib_state" where
  "unBlockThread tid s =
     (case threads s tid of
        None \<Rightarrow> (-1, s)
      | Some t \<Rightarrow> (0, s\<lparr>threads := (threads s)(tid \<mapsto> t\<lparr>isBlocked := False\<rparr>)\<rparr>))"

text \<open>Modelled from the spec: \<^verbatim>\<open>thread_manager::putThreadToSleep\<close> (absent); section 4.B: sets
  the sleeping flag, \<open>-1\<close> when no record exists.\<close>

definition putThreadToSleep :: "int \<Rightarrow> lib_state \<Rightarrow> int \<times> lib_state" where
  "putThreadToSleep tid s =
     (case threads s tid of
        None \<Rightarrow> (-1, s)
      | Some t \<Rightarrow> (0, s\<lparr>threads := (threads s)(tid \<mapsto> t\<lparr>isSleeping := True\<rparr>)\<rparr>))"

text \<open>Modelled from the spec: \<^verbatim>\<open>thread_manager::wakeThread\<close> (absent); section 4.B: clears the
  sleeping flag and answers 0 for every existing thread, \<open>-1\<close> when no record exists.\<close>

definition wakeThread :: "int \<Rightarrow> lib_state \<Rightarrow> int \<times> lib_state" where
  "wakeThread tid s =
     (case threads s tid of
        None \<Rightarrow> (-1, s)
      | Some t \<Rightarrow> (0, s\<lparr>threads := (threads s)(tid \<mapsto> t\<lparr>isSleeping := False\<rparr>)\<rparr>))"

text \<open>Modelled from the spec: \<^verbatim>\<open>thread_manager::isThreadBlocked\<close> (absent); section 4.B. The
  source asks only about threads it has just found to exist.\<close>

definition isThreadBlocked :: "int \<Rightarrow> lib_state \<Rightarrow> bool" where
  "isThreadBlocked tid s = (case threads s tid of None \<Rightarrow> False | Some t \<Rightarrow> isBlocked t)"

text \<open>Modelled from the spec: \<^verbatim>\<open>thread_manager::isThreadAsleep\<close> (absent); section 4.B. The
  source asks only about threads it has just found to exist.\<close>

definition isThreadAsleep :: "int \<Rightarrow> lib_state \<Rightarrow> bool" where
  "isThreadAsleep tid s = (case threads s tid of None \<Rightarrow> False | Some t \<Rightarrow> isSleeping t)"

text \<open>Modelled from the spec: \<^verbatim>\<open>thread_manager::getThreadQuants\<close> (absent); section 4.B and the
  test \<^verbatim>\<open>threadQuants != -1\<close> of its caller: the quantum count, \<open>-1\<close> when no record exists.\<close>

definition getThreadQuants :: "int \<Rightarrow> lib_state \<Rightarrow> int" where
  "getThreadQuants tid s = (case threads s tid of None \<Rightarrow> -1 | Some t \<Rightarrow> quants t)"

text \<open>Modelled from the spec: \<^verbatim>\<open>thread_manager::switchContext\<close> (absent); section 4.G: the
  quantum count of the thread switched to is incremented, also when both ids are equal.
  Saving and restoring the machine context is the transfer of control recorded by the
  outcome \<open>Switched\<close>.\<close>

definition switchContext :: "int \<Rightarrow> int \<Rightarrow> lib_state \<Rightarrow> lib_state" where
  "switchContext from_tid to_tid s =
     (case threads s to_tid of
        None \<Rightarrow> s
      | Some t \<Rightarrow> s\<lparr>threads := (threads s)(to_tid \<mapsto> t\<lparr>quants := quants t + 1\<rparr>)\<rparr>)"

subsection \<open>Scheduler\<close>

text \<open>
  Modelled from the spec: \<^verbatim>\<open>scheduler\<close> (scheduler.h is not among the sources).
  Sections 3, 4.C and 4.G: it holds the ready queue and the running id; the running
  thread is the head of the queue; a thread is present at most once, so appending an id
  that is already queued leaves the queue as it is; \<open>whosNextTimeout\<close> rotates the head
  to the tail and the new head runs; \<open>whosNextTermination\<close> removes the id and the new
  head runs; \<open>whosNextBlock\<close> removes the id and the new head runs if the id was the
  running one, otherwise the runner stays; \<open>whosNextSleep\<close> is the self-block of the
  running thread. The spec does not say what is selected from an empty queue; the model
  keeps the runner there (the queue of an initialised library always holds thread 0,
  see \<open>wf_state\<close>).
\<close>

text \<open>Modelled from the spec: \<^verbatim>\<open>scheduler::getRunning\<close> (absent); section 4.G: the scheduler
  holds the running id.\<close>

definition getRunning :: "lib_state \<Rightarrow> int" where
  "getRunning s = running s"

text \<open>Modelled from the spec: \<^verbatim>\<open>scheduler::addThread\<close> (absent); sections 3 and 4.C: append to
  the tail; no duplicates, a thread is present at most once.\<close>

definition addThread :: "int \<Rightarrow> lib_state \<Rightarrow> lib_state" where
  "addThread tid s = (if tid \<in> set (ready s) then s else s\<lparr>ready := ready s @ [tid]\<rparr>)"

text \<open>Modelled from the spec: the head of the ready queue as the next runner (section 4.G);
  the runner stays when the queue is empty, a case the spec leaves open.\<close>

definition newHead :: "int \<Rightarrow> int list \<Rightarrow> int" where
  "newHead r q = (case q of [] \<Rightarrow> r | h # _ \<Rightarrow> h)"

text \<open>Modelled from the spec: \<^verbatim>\<open>scheduler::whosNextTimeout\<close> (absent); section 4.G: rotate the
  head to the tail, the new head runs.\<close>

definition whosNextTimeout :: "lib_state \<Rightarrow> int \<times> lib_state" where
  "whosNextTimeout s =
     (let q = rotate1 (ready s); n = newHead (running s) q
      in (n, s\<lparr>ready := q, running := n\<rparr>))"

text \<open>Modelled from the spec: \<^verbatim>\<open>scheduler::whosNextTermination\<close> (absent); section 4.G: remove
  the id from the queue, the new head runs.\<close>

definition whosNextTermination :: "int \<Rightarrow> lib_state \<Rightarrow> int \<times> lib_state" where
  "whosNextTermination tid s =
     (let q = removeAll tid (ready s); n = newHead (running s) q
      in (n, s\<lparr>ready := q, running := n\<rparr>))"

text \<open>Modelled from the spec: \<^verbatim>\<open>scheduler::whosNextBlock\<close> (absent); section 4.G: remove the id;
  if it was running the new head runs, otherwise there is no switch.\<close>

definition whosNextBlock :: "int \<Rightarrow> lib_state \<Rightarrow> int \<times> lib_state" where
  "whosNextBlock tid s =
     (let q = removeAll tid (ready s);
          n = (if tid = running s then newHead (running s) q else running s)
      in (n, s\<lparr>ready := q, running := n\<rparr>))"

text \<open>Modelled from the spec: \<^verbatim>\<open>scheduler::whosNextSleep\<close> (absent); section 4.G: identical to
  the self-block of the running thread.\<close>

definition whosNextSleep :: "lib_state \<Rightarrow> int \<times> lib_state" where
  "whosNextSleep s = whosNextBlock (running s) s"

subsection \<open>Sleeping-threads list and timers\<close>

text \<open>
  Modelled from the spec: \<^verbatim>\<open>SleepingThreadsList\<close>, \<^verbatim>\<open>virtual_timer\<close> and
  \<^verbatim>\<open>real_timer\<close> (their headers are not among the sources). Section 4.D: entries are
  kept ascending by wake time, stable under equal wake times; \<open>peek\<close> gives the head
  or null; \<open>pop\<close> removes the head. Sections 4.E and 4.F: starting the virtual timer
  begins a fresh quantum (the model counts the starts); the real timer is one-shot and
  is started with a delay in microseconds, a new start replacing the old deadline (the
  model keeps the last delay it was started with).
\<close>

text \<open>Modelled from the spec: the order of wake times used by the absent
  \<^verbatim>\<open>SleepingThreadsList::add\<close>: seconds first, then microseconds.\<close>

definition tv_less :: "timeval \<Rightarrow> timeval \<Rightarrow> bool" where
  "tv_less a b = (tv_sec a < tv_sec b \<or> (tv_sec a = tv_sec b \<and> tv_usec a < tv_usec b))"

text \<open>Modelled from the spec: \<^verbatim>\<open>SleepingThreadsList::add\<close> (absent); section 4.D: insert into the
  sorted position by wake time, after the entries with an equal wake time.\<close>

fun add_sleeper :: "wake_up_info \<Rightarrow> wake_up_info list \<Rightarrow> wake_up_info list" where
  "add_sleeper e [] = [e]"
| "add_sleeper e (x # xs) =
     (if tv_less (awaken_tv e) (awaken_tv x) then e # x # xs else x # add_sleeper e xs)"

text \<open>Modelled from the spec: \<^verbatim>\<open>SleepingThreadsList::peek\<close> (absent); section 4.D and the comment
  in \<^verbatim>\<open>uthread_sleep\<close>: the head, null if the list is empty.\<close>

definition peek :: "wake_up_info list \<Rightarrow> wake_up_info option" where
  "peek l = (case l of [] \<Rightarrow> None | x # _ \<Rightarrow> Some x)"

text \<open>Modelled from the spec: \<^verbatim>\<open>SleepingThreadsList::pop\<close> (absent); section 4.D: removes the head.
  The source pops only after it has read the head.\<close>

definition pop :: "wake_up_info list \<Rightarrow> wake_up_info list" where
  "pop l = tl l"

text \<open>Modelled from the spec: \<^verbatim>\<open>virtual_timer::start\<close> (absent); section 4.E: a start begins a
  full quantum; the model counts the starts. Its failure is \<open>vtimer_ok os = False\<close>.\<close>

definition vTimer_start :: "lib_state \<Rightarrow> lib_state" where
  "vTimer_start s = s\<lparr>vTimerStarts := Suc (vTimerStarts s)\<rparr>"

text \<open>Modelled from the spec: \<^verbatim>\<open>real_timer::start\<close> (absent); section 4.F: started with a delay in
  microseconds, replacing the previous deadline; the model keeps the delay.\<close>

definition rTimer_start :: "int \<Rightarrow> lib_state \<Rightarrow> lib_state" where
  "rTimer_start delay s = s\<lparr>rTimer := Some delay\<rparr>"

section \<open>Signal handlers\<close>

text \<open>\<^verbatim>\<open>handleQuantumTimeout\<close>: restart the virtual timer, count the quantum, rotate
  and switch.\<close>

definition handleQuantumTimeout :: "os_env \<Rightarrow> int \<Rightarrow> lib_state \<Rightarrow> unit outcome" where
  "handleQuantumTimeout os sig s =
     (if sig = SIGVTALRM then
        if \<not> vtimer_ok os then exitProg [] ''Failed to start _timer.''
        else
          let s1 = (vTimer_start s)\<lparr>totalQuants := totalQuants s + 1\<rparr>;
              currRun = getRunning s1;
              (nextToRun, s2) = whosNextTimeout s1;
              s3 = switchContext currRun nextToRun s2
          in if nextToRun = currRun then Returned () [] s3 else Switched [] s3
      else Returned () [] s)"

text \<open>
  The first half of the loop body of \<^verbatim>\<open>handleSleepTimeout\<close> (lines 118 to 128), for a
  list that is not empty: pop the head, wake its thread and, if that thread exists and
  is not blocked, append it to the ready queue.
\<close>

definition wakeHead :: "lib_state \<Rightarrow> lib_state" where
  "wakeHead s =
     (let toWakeTid = id_w (hd (sleepingThreads s));
          s1 = s\<lparr>sleepingThreads := pop (sleepingThreads s)\<rparr>;
          (r, s2) = wakeThread toWakeTid s1
      in if r = 0 then
           (if \<not> isThreadBlocked toWakeTid s2 then addThread toWakeTid s2 else s2)
         else s2)"

text \<open>The delay the handler computes for the next sleeper, narrowed to the
  \<^verbatim>\<open>int totalTime\<close> (lines 138 and 139; the operands are \<^verbatim>\<open>long\<close>).\<close>

definition totalTime_of :: "timeval \<Rightarrow> timeval \<Rightarrow> int" where
  "totalTime_of nextWakingTime now =
     narrow_int ((tv_sec nextWakingTime - tv_sec now) * CONVERT_CONST_SEC_TO_NSEC +
                 (tv_usec nextWakingTime - tv_usec now) * CONVERT_CONST_MSEC_TO_NSEC)"

lemma sleepingThreads_wakeHead [simp]:
  "sleepingThreads (wakeHead s) = tl (sleepingThreads s)"
  by (simp add: wakeHead_def wakeThread_def addThread_def pop_def Let_def
           split: option.splits)

text \<open>
  The do-while loop of \<^verbatim>\<open>handleSleepTimeout\<close>. \<^verbatim>\<open>peek\<close> of an empty list is null
  and the handler reads \<^verbatim>\<open>threadToAwake->id\<close> without a test, so the loop crashes on
  an empty list. \<open>inLoop\<close> is the source's iteration counter; the reading of the clock
  in iteration \<open>inLoop\<close> is \<open>gettimeofday os inLoop\<close>.
\<close>

function wakeLoop :: "os_env \<Rightarrow> nat \<Rightarrow> lib_state \<Rightarrow> unit outcome" where
  "wakeLoop os inLoop s =
     (if sleepingThreads s = [] then Crashed
      else
        let s' = wakeHead s
        in case peek (sleepingThreads s') of
             None \<Rightarrow> Returned () [] s'
           | Some nextToWake \<Rightarrow>
               let now = gettimeofday os (Suc inLoop);
                   totalTime = totalTime_of (awaken_tv nextToWake) now
               in if totalTime \<le> 0 then wakeLoop os (Suc inLoop) s'
                  else Returned () [] (rTimer_start totalTime s'))"
  by pat_completeness auto
termination
  by (relation "measure (\<lambda>(os, inLoop, s). length (sleepingThreads s))") auto

definition handleSleepTimeout :: "os_env \<Rightarrow> int \<Rightarrow> lib_state \<Rightarrow> unit outcome" where
  "handleSleepTimeout os sig s =
     (if sig = SIGALRM then wakeLoop os 0 s else Returned () [] s)"

section \<open>Library functions\<close>


text \<open>\<^verbatim>\<open>uthread_init\<close>; \<open>MAX_THREAD_NUM\<close> is the constant of uthreads.h handed to the
  manager.\<close>

definition uthread_init :: "os_env \<Rightarrow> nat \<Rightarrow> int \<Rightarrow> lib_state \<Rightarrow> int outcome" where
  "uthread_init os MAX_THREAD_NUM quantum_usecs s =
     (if quantum_usecs > 0 then
        if \<not> alloc_ok os then Exited 1 []
        else if \<not> sigset_ok os then exitProg [] ''Failed to initialize signal set to block.''
        else if \<not> sigaction_ok os then exitProg [] ''sigaction had failed.''
        else if \<not> vtimer_ok os then exitProg [] ''Failed to start _timer.''
        else Returned 0 []
               \<lparr>threads = [0 \<mapsto> mainThread], maxThreads = MAX_THREAD_NUM,
                quantum = quantum_usecs, ready = [0], running = 0,
                sleepingThreads = [], vTimerStarts = 1, rTimer = None,
                totalQuants = totalQuants s + 1\<rparr>
      else Returned (-1) [libErrorSyntax @ ''quantum_usec should be non-negative.''] s)"

definition uthread_spawn :: "os_env \<Rightarrow> lib_state \<Rightarrow> int outcome" where
  "uthread_spawn os s =
     maskSignals os
       (let (newTid, s1) = createThread os s
        in if newTid = sysError then Exited 1 []
           else if newTid = -1 then
             (let msg = libErrorSyntax @ ''Number of threads > MAX_THREAD_NUMBER.''
              in unmaskSignals os [msg] (Returned (-1) [msg] s1))
           else unmaskSignals os [] (Returned newTid [] (addThread newTid s1)))"

definition uthread_terminate :: "os_env \<Rightarrow> int \<Rightarrow> lib_state \<Rightarrow> int outcome" where
  "uthread_terminate os tid s =
     maskSignals os
       (let currRunning = getRunning s
        in if tid \<noteq> 0 then
             (let (r, s1) = killThread tid s
              in if r \<noteq> -1 then
                   (let (nextToRun, s2) = whosNextTermination tid s1
                    in if nextToRun \<noteq> currRunning then
                         (if \<not> vtimer_ok os then exitProg [] ''Failed to start _timer.''
                          else Switched []
                                 (switchContext currRunning nextToRun
                                    ((vTimer_start s2)\<lparr>totalQuants := totalQuants s2 + 1\<rparr>)))
                       else unmaskSignals os [] (Returned 0 [] s2))
                 else
                   (let msg = libErrorSyntax @ ''Thread doesn't exit.''
                    in unmaskSignals os [msg] (Returned (-1) [msg] s1)))
           else unmaskSignals os [] (Exited 0 []))"

definition uthread_block :: "os_env \<Rightarrow> int \<Rightarrow> lib_state \<Rightarrow> int outcome" where
  "uthread_block os tid s =
     maskSignals os
       (let currRunning = getRunning s
        in if tid \<noteq> 0 then
             (let (r, s1) = blockThread tid s
              in if r \<noteq> -1 then
                   (let (nextToRun, s2) = whosNextBlock tid s1
                    in if nextToRun \<noteq> currRunning then
                         (if \<not> vtimer_ok os then exitProg [] ''Failed to start _timer.''
                          else Switched []
                                 (switchContext currRunning nextToRun
                                    ((vTimer_start s2)\<lparr>totalQuants := totalQuants s2 + 1\<rparr>)))
                       else unmaskSignals os [] (Returned 0 [] s2))
                 else
                   (let msg = libErrorSyntax @ ''Thread doesn't exit.''
                    in unmaskSignals os [msg] (Returned (-1) [msg] s1)))
           else
             (let msg = libErrorSyntax @ ''Blocking the main thread is forbidden.''
              in unmaskSignals os [msg] (Returned (-1) [msg] s)))"

definition uthread_resume :: "os_env \<Rightarrow> int \<Rightarrow> lib_state \<Rightarrow> int outcome" where
  "uthread_resume os tid s =
     maskSignals os
       (let (r, s1) = unBlockThread tid s
        in if r \<noteq> -1 then
             unmaskSignals os []
               (Returned 0 [] (if \<not> isThreadAsleep tid s1 then addThread tid s1 else s1))
           else
             (let msg = libErrorSyntax @ ''Thread doesn't exit.''
              in unmaskSignals os [msg] (Returned (-1) [msg] s1)))"

text \<open>
  \<^verbatim>\<open>uthread_sleep\<close>. The argument is an \<^verbatim>\<open>unsigned int\<close>; \<^verbatim>\<open>calcWakUpTimeval\<close>
  takes it as an \<^verbatim>\<open>int\<close>. The real timer is restarted when the list was empty or
  when the id at its head changed.
\<close>

definition uthread_sleep :: "os_env \<Rightarrow> nat \<Rightarrow> lib_state \<Rightarrow> int outcome" where
  "uthread_sleep os usec s =
     maskSignals os
       (let runningThreadTid = getRunning s;
            oldFirstToWake = peek (sleepingThreads s)
        in if runningThreadTid \<noteq> 0 then
             (let t = calcWakUpTimeval (gettimeofday os 0) (narrow_int (int usec));
                  s1 = s\<lparr>sleepingThreads :=
                          add_sleeper \<lparr>id_w = runningThreadTid, awaken_tv = t\<rparr> (sleepingThreads s)\<rparr>;
                  newFirstToWake = peek (sleepingThreads s1);
                  restart = (case oldFirstToWake of
                               None \<Rightarrow> True
                             | Some old \<Rightarrow>
                                 (case newFirstToWake of
                                    None \<Rightarrow> False
                                  | Some new \<Rightarrow> id_w old \<noteq> id_w new));
                  s2 = (if restart then rTimer_start (int usec) s1 else s1);
                  (r, s3) = putThreadToSleep runningThreadTid s2;
                  (nextToRun, s4) = whosNextSleep s3
              in if \<not> vtimer_ok os then exitProg [] ''Failed to start _timer.''
                 else
                   (let s5 = switchContext runningThreadTid nextToRun
                               ((vTimer_start s4)\<lparr>totalQuants := totalQuants s4 + 1\<rparr>)
                    in if nextToRun = runningThreadTid
                       then unmaskSignals os [] (Returned 0 [] s5)
                       else Switched [] s5))
           else
             (let msg = libErrorSyntax @ ''The main thread can't sleep.''
              in unmaskSignals os [msg] (Returned (-1) [msg] s)))"

definition uthread_get_tid :: "os_env \<Rightarrow> lib_state \<Rightarrow> int outcome" where
  "uthread_get_tid os s =
     maskSignals os
       (let retVal = getRunning s
        in unmaskSignals os [] (Returned retVal [] s))"

definition uthread_get_total_quantums :: "lib_state \<Rightarrow> int outcome" where
  "uthread_get_total_quantums s = Returned (totalQuants s) [] s"

definition uthread_get_quantums :: "os_env \<Rightarrow> int \<Rightarrow> lib_state \<Rightarrow> int outcome" where
  "uthread_get_quantums os tid s =
     maskSignals os
       (let threadQuants = getThreadQuants tid s
        in if threadQuants \<noteq> -1 then unmaskSignals os [] (Returned threadQuants [] s)
           else
             (let msg = libErrorSyntax @ ''Thread doesn't exit.''
              in unmaskSignals os [msg] (Returned (-1) [msg] s)))"

section \<open>Vocabulary of the properties\<close>

text \<open>
  The states of a running library: the running thread is the head of the ready queue,
  no id is queued twice, thread 0 is queued, every queued thread has a record that is
  neither blocked nor sleeping, quantum counts are not negative and the running thread
  has run at least one quantum. \<open>wf_init\<close> and \<open>wf_exec\<close> show that
  \<^verbatim>\<open>uthread_init\<close> establishes these facts and every later call or signal keeps them.
\<close>

definition wf_state :: "lib_state \<Rightarrow> bool" where
  "wf_state s \<longleftrightarrow>
     (\<exists>rest. ready s = running s # rest) \<and> distinct (ready s) \<and> 0 \<in> set (ready s) \<and>
     (\<forall>tid \<in> set (ready s). \<exists>t. threads s tid = Some t \<and> \<not> isBlocked t \<and> \<not> isSleeping t) \<and>
     (\<forall>tid t. threads s tid = Some t \<longrightarrow> 0 \<le> quants t) \<and>
     (\<forall>t. threads s (running s) = Some t \<longrightarrow> 1 \<le> quants t)"

text \<open>Calling an operation twice in a row, with nothing in between: both results and
  the final state, when both calls return.\<close>

definition twice :: "(lib_state \<Rightarrow> int outcome) \<Rightarrow> lib_state \<Rightarrow> (int \<times> int \<times> lib_state) option" where
  "twice f s =
     (case f s of
        Returned r1 out1 s1 \<Rightarrow>
          (case f s1 of Returned r2 out2 s2 \<Rightarrow> Some (r1, r2, s2) | _ \<Rightarrow> None)
      | _ \<Rightarrow> None)"

text \<open>A library-level failure: the call returns \<open>-1\<close>, writes one line that starts
  with \<^verbatim>\<open>thread library error: \<close>, and the state is the one it was called in.\<close>

definition is_lib_error :: "int outcome \<Rightarrow> lib_state \<Rightarrow> bool" where
  "is_lib_error res s =
     (case res of
        Returned r out s' \<Rightarrow>
          r = -1 \<and> s' = s \<and>
          (case out of [msg] \<Rightarrow> take (length libErrorSyntax) msg = libErrorSyntax | _ \<Rightarrow> False)
      | _ \<Rightarrow> False)"

text \<open>An operating system whose calls all succeed, and the state right after
  \<^verbatim>\<open>uthread_init(100000)\<close> with \<open>MAX_THREAD_NUM = M\<close>.\<close>

definition ok_os :: os_env where
  "ok_os = \<lparr>mask_ok = True, unmask_ok = True, vtimer_ok = True, sigset_ok = True,
            sigaction_ok = True, alloc_ok = True,
            gettimeofday = (\<lambda>n. \<lparr>tv_sec = 100, tv_usec = 0\<rparr>)\<rparr>"

definition init_state :: "nat \<Rightarrow> lib_state" where
  "init_state M =
     \<lparr>threads = [0 \<mapsto> mainThread], maxThreads = M, quantum = 100000, ready = [0],
      running = 0, sleepingThreads = [], vTimerStarts = 1, rTimer = None, totalQuants = 1\<rparr>"

text \<open>The state after \<^verbatim>\<open>uthread_init\<close> (with \<open>MAX_THREAD_NUM = 3\<close>) and one
  \<^verbatim>\<open>uthread_spawn\<close>: thread 1 is ready and has not run yet.\<close>

definition spawned_state :: lib_state where
  "spawned_state =
     \<lparr>threads = [0 \<mapsto> mainThread, 1 \<mapsto> newThread], maxThreads = 3, quantum = 100000,
      ready = [0, 1], running = 0, sleepingThreads = [], vTimerStarts = 1, rTimer = None,
      totalQuants = 1\<rparr>"

text \<open>A thread that has run one quantum, and the state after \<^verbatim>\<open>uthread_init\<close>, one
  \<^verbatim>\<open>uthread_spawn\<close> and one quantum expiry: thread 1 is running.\<close>

definition ranThread :: thread where
  "ranThread = \<lparr>quants = 1, isBlocked = False, isSleeping = False\<rparr>"

definition running1_state :: lib_state where
  "running1_state =
     \<lparr>threads = [0 \<mapsto> mainThread, 1 \<mapsto> ranThread], maxThreads = 3, quantum = 100000,
      ready = [1, 0], running = 1, sleepingThreads = [], vTimerStarts = 2, rTimer = None,
      totalQuants = 2\<rparr>"

text \<open>
  The events of a run of the library after \<^verbatim>\<open>uthread_init\<close>: the calls of the public
  functions and the deliveries of a signal to the two handlers. \<open>exec\<close> gives the state
  after the event, if the process survives it.
\<close>

datatype event =
    Spawn | Terminate int | Block int | Resume int | Sleep nat
  | Get_tid | Get_total_quantums | Get_quantums int
  | Quantum_handler int | Sleep_handler int

fun exec :: "os_env \<Rightarrow> event \<Rightarrow> lib_state \<Rightarrow> lib_state option" where
  "exec os Spawn s = next_state (uthread_spawn os s)"
| "exec os (Terminate tid) s = next_state (uthread_terminate os tid s)"
| "exec os (Block tid) s = next_state (uthread_block os tid s)"
| "exec os (Resume tid) s = next_state (uthread_resume os tid s)"
| "exec os (Sleep usec) s = next_state (uthread_sleep os usec s)"
| "exec os Get_tid s = next_state (uthread_get_tid os s)"
| "exec os Get_total_quantums s = next_state (uthread_get_total_quantums s)"
| "exec os (Get_quantums tid) s = next_state (uthread_get_quantums os tid s)"
| "exec os (Quantum_handler sig) s = next_state (handleQuantumTimeout os sig s)"
| "exec os (Sleep_handler sig) s = next_state (handleSleepTimeout os sig s)"

fun run :: "os_env \<Rightarrow> event list \<Rightarrow> lib_state \<Rightarrow> lib_state option" where
  "run os [] s = Some s"
| "run os (e # es) s = (case exec os e s of None \<Rightarrow> None | Some s' \<Rightarrow> run os es s')"

text \<open>
  Threads 1 and 2 asleep and thread 0 running: thread 1 wakes at second 100, thread 2 at
  second \<open>100 + d\<close>. \<open>os_at t\<close> is an operating system whose calls succeed and whose clock
  reads \<open>t\<close> seconds.
\<close>

definition os_at :: "int \<Rightarrow> os_env" where
  "os_at t = ok_os\<lparr>gettimeofday := (\<lambda>n. \<lparr>tv_sec = t, tv_usec = 0\<rparr>)\<rparr>"

definition sleptThread :: thread where
  "sleptThread = \<lparr>quants = 1, isBlocked = False, isSleeping = True\<rparr>"

definition two_sleepers :: "int \<Rightarrow> lib_state" where
  "two_sleepers d =
     \<lparr>threads = [0 \<mapsto> \<lparr>quants = 2, isBlocked = False, isSleeping = False\<rparr>,
                 1 \<mapsto> sleptThread, 2 \<mapsto> sleptThread],
      maxThreads = 3, quantum = 100000, ready = [0], running = 0,
      sleepingThreads = [\<lparr>id_w = 1, awaken_tv = \<lparr>tv_sec = 100, tv_usec = 0\<rparr>\<rparr>,
                         \<lparr>id_w = 2, awaken_tv = \<lparr>tv_sec = 100 + d, tv_usec = 0\<rparr>\<rparr>],
      vTimerStarts = 4, rTimer = Some 1000000, totalQuants = 4\<rparr>"

text \<open>The delay until a wake time in microseconds, in the words of the specification
  (\<open>delta = head.wake_at - now\<close> in microseconds).\<close>

definition usec_until :: "timeval \<Rightarrow> timeval \<Rightarrow> int" where
  "usec_until wake_at now = (tv_sec wake_at - tv_sec now) * 1000000 + (tv_usec wake_at - tv_usec now)"

text \<open>The state after thread 1, running in \<open>running1_state\<close>, called
  \<^verbatim>\<open>uthread_sleep(1000000)\<close> at second 100.\<close>

definition slept1_state :: lib_state where
  "slept1_state =
     \<lparr>threads = [0 \<mapsto> \<lparr>quants = 2, isBlocked = False, isSleeping = False\<rparr>,
                 1 \<mapsto> sleptThread],
      maxThreads = 3, quantum = 100000, ready = [0], running = 0,
      sleepingThreads = [\<lparr>id_w = 1, awaken_tv = \<lparr>tv_sec = 101, tv_usec = 0\<rparr>\<rparr>],
      vTimerStarts = 3, rTimer = Some 1000000, totalQuants = 3\<rparr>"

text \<open>The state after thread 0 blocked thread 1 in \<open>spawned_state\<close>.\<close>

definition blocked1_state :: lib_state where
  "blocked1_state =
     spawned_state\<lparr>threads := [0 \<mapsto> mainThread,
                                 1 \<mapsto> \<lparr>quants = 0, isBlocked = True, isSleeping = False\<rparr>],
                    ready := [0]\<rparr>"

text \<open>
  What one invocation of the wake handler may do to the state \<open>s\<close>, giving \<open>s'\<close>.
  \<open>same_scalars\<close>: the running id, the global counter, the starts of the virtual timer
  and the configuration are untouched. \<open>same_threads\<close>: the registry has the same ids,
  every thread keeps its quantum count and its blocked flag, and a sleeping flag is at
  most cleared. \<open>woke\<close>: the thread of every popped entry, if it exists, is not sleeping
  afterwards and is in the ready queue unless it is blocked, and every thread the handler
  put into the ready queue is neither blocked nor sleeping. \<open>wake_effect\<close> puts these
  together for the list \<open>popped\<close> of entries removed from the head of the sleeping list.
\<close>

definition same_scalars :: "lib_state \<Rightarrow> lib_state \<Rightarrow> bool" where
  "same_scalars s s' \<longleftrightarrow>
     running s' = running s \<and> totalQuants s' = totalQuants s \<and>
     vTimerStarts s' = vTimerStarts s \<and> maxThreads s' = maxThreads s \<and>
     quantum s' = quantum s"

definition same_threads :: "lib_state \<Rightarrow> lib_state \<Rightarrow> bool" where
  "same_threads s s' \<longleftrightarrow>
     (\<forall>tid. threads s tid = None \<longrightarrow> threads s' tid = None) \<and>
     (\<forall>tid t. threads s tid = Some t \<longrightarrow>
        (\<exists>t'. threads s' tid = Some t' \<and> quants t' = quants t \<and>
              isBlocked t' = isBlocked t \<and> (isSleeping t' \<longrightarrow> isSleeping t)))"

definition woke :: "lib_state \<Rightarrow> lib_state \<Rightarrow> wake_up_info list \<Rightarrow> bool" where
  "woke s s' popped \<longleftrightarrow>
     (\<forall>e \<in> set popped. \<forall>t'. threads s' (id_w e) = Some t' \<longrightarrow>
        \<not> isSleeping t' \<and> (\<not> isBlocked t' \<longrightarrow> id_w e \<in> set (ready s'))) \<and>
     (\<forall>tid. tid \<in> set (ready s') \<and> tid \<notin> set (ready s) \<longrightarrow>
        (\<exists>t'. threads s' tid = Some t' \<and> \<not> isBlocked t' \<and> \<not> isSleeping t'))"

definition wake_effect :: "lib_state \<Rightarrow> lib_state \<Rightarrow> wake_up_info list \<Rightarrow> bool" where
  "wake_effect s s' popped \<longleftrightarrow>
     sleepingThreads s = popped @ sleepingThreads s' \<and> same_scalars s s' \<and>
     same_threads s s' \<and>
     (\<exists>woken. ready s' = ready s @ woken \<and> set woken \<subseteq> id_w ` set popped) \<and>
     woke s s' popped"



text \<open>
  States around a sleeping thread, all reached from \<open>slept1_state\<close> (thread 1 asleep,
  thread 0 running): thread 1 blocked while asleep, the same after the wake handler ran,
  thread 1 terminated while asleep, and the same after the wake handler ran.
\<close>

definition blocked_sleeper :: thread where
  "blocked_sleeper = \<lparr>quants = 1, isBlocked = True, isSleeping = True\<rparr>"

definition blocked_slept_state :: lib_state where
  "blocked_slept_state = slept1_state\<lparr>threads := (threads slept1_state)(1 \<mapsto> blocked_sleeper)\<rparr>"

definition woken_blocked_state :: lib_state where
  "woken_blocked_state =
     blocked_slept_state\<lparr>threads := (threads blocked_slept_state)
                                       (1 \<mapsto> \<lparr>quants = 1, isBlocked = True, isSleeping = False\<rparr>),
                         sleepingThreads := []\<rparr>"



section \<open>Basic facts\<close>

declare wakeLoop.simps [simp del]


section \<open>Observers\<close>

text \<open>
  Claim C10. The observers \<^verbatim>\<open>uthread_get_tid\<close>, \<^verbatim>\<open>uthread_get_total_quantums\<close> and
  \<^verbatim>\<open>uthread_get_quantums\<close> (of an existing thread) return the running id, the counter
  and the thread's quantum count, write nothing and leave the whole library state
  (registry, both queues, running id, counters, timers) as it was; called twice in a row
  they give the same result twice.
\<close>

theorem observers_pure:
  assumes "mask_ok os" "unmask_ok os" "threads s tid = Some t" "0 \<le> quants t"
  shows "uthread_get_tid os s = Returned (running s) [] s \<and>
         uthread_get_total_quantums s = Returned (totalQuants s) [] s \<and>
         uthread_get_quantums os tid s = Returned (quants t) [] s \<and>
         twice (uthread_get_tid os) s = Some (running s, running s, s) \<and>
         twice uthread_get_total_quantums s = Some (totalQuants s, totalQuants s, s) \<and>
         twice (uthread_get_quantums os tid) s = Some (quants t, quants t, s)"
  using assms
  by (simp add: uthread_get_tid_def uthread_get_total_quantums_def uthread_get_quantums_def
        maskSignals_def unmaskSignals_def getRunning_def getThreadQuants_def twice_def)

theorem observers_pure_witness:
  "uthread_get_tid ok_os (init_state 3) = Returned 0 [] (init_state 3) \<and>
   uthread_get_total_quantums (init_state 3) = Returned 1 [] (init_state 3) \<and>
   uthread_get_quantums ok_os 0 (init_state 3) = Returned 1 [] (init_state 3) \<and>
   twice (uthread_get_tid ok_os) (init_state 3) = Some (0, 0, init_state 3) \<and>
   twice uthread_get_total_quantums (init_state 3) = Some (1, 1, init_state 3) \<and>
   twice (uthread_get_quantums ok_os 0) (init_state 3) = Some (1, 1, init_state 3)"
  using observers_pure [of ok_os "init_state 3" 0 mainThread]
  by (simp add: ok_os_def init_state_def mainThread_def)

section \<open>Library errors\<close>

text \<open>
  Claim C8. Each validation, not-found or capacity failure returns \<open>-1\<close>, writes a
  message that starts with \<^verbatim>\<open>thread library error: \<close> and leaves the library state
  unchanged: a non-positive quantum in init, block of thread 0, sleep called by thread
  0, an unknown id in terminate, block, resume and get_quantums, and spawn when the
  live count equals \<open>MAX_THREAD_NUM\<close>.
\<close>

theorem failures_leave_state:
  assumes "mask_ok os" "unmask_ok os"
  shows "(quantum_usecs \<le> 0 \<longrightarrow> is_lib_error (uthread_init os M quantum_usecs s) s) \<and>
         is_lib_error (uthread_block os 0 s) s \<and>
         (running s = 0 \<longrightarrow> is_lib_error (uthread_sleep os usec s) s) \<and>
         (tid \<noteq> 0 \<and> threads s tid = None \<longrightarrow> is_lib_error (uthread_terminate os tid s) s) \<and>
         (tid \<noteq> 0 \<and> threads s tid = None \<longrightarrow> is_lib_error (uthread_block os tid s) s) \<and>
         (threads s tid = None \<longrightarrow> is_lib_error (uthread_resume os tid s) s) \<and>
         (threads s tid = None \<longrightarrow> is_lib_error (uthread_get_quantums os tid s) s) \<and>
         (liveCount s = maxThreads s \<longrightarrow> is_lib_error (uthread_spawn os s) s)"
  using assms
  by (simp add: is_lib_error_def uthread_init_def uthread_block_def uthread_sleep_def
        uthread_terminate_def uthread_resume_def uthread_get_quantums_def uthread_spawn_def
        maskSignals_def unmaskSignals_def getRunning_def getThreadQuants_def killThread_def
        blockThread_def unBlockThread_def createThread_def libErrorSyntax_def sysError_def Let_def)

theorem failures_leave_state_witness:
  "is_lib_error (uthread_init ok_os 1 0 (init_state 1)) (init_state 1) \<and>
   is_lib_error (uthread_block ok_os 0 (init_state 1)) (init_state 1) \<and>
   is_lib_error (uthread_sleep ok_os 5 (init_state 1)) (init_state 1) \<and>
   is_lib_error (uthread_terminate ok_os 7 (init_state 1)) (init_state 1) \<and>
   is_lib_error (uthread_block ok_os 7 (init_state 1)) (init_state 1) \<and>
   is_lib_error (uthread_resume ok_os 7 (init_state 1)) (init_state 1) \<and>
   is_lib_error (uthread_get_quantums ok_os 7 (init_state 1)) (init_state 1) \<and>
   is_lib_error (uthread_spawn ok_os (init_state 1)) (init_state 1)"
  using failures_leave_state [of ok_os 0 1 "init_state 1" 5 7]
  by (simp add: ok_os_def init_state_def liveCount_def)

section \<open>Quantum count of a thread\<close>


lemma wf_spawned_state: "wf_state spawned_state"
  by (auto simp: wf_state_def spawned_state_def mainThread_def newThread_def split: if_splits)




section \<open>Termination of a thread\<close>


lemma wf_running1_state: "wf_state running1_state"
  by (auto simp: wf_state_def running1_state_def mainThread_def ranThread_def split: if_splits)




section \<open>The delay computed by the wake handler\<close>

lemma two_sleepers_reached:
  "run (os_at 99) [Spawn, Spawn, Quantum_handler SIGVTALRM, Sleep 1000000, Sleep 2000000] (init_state 3)
     = Some (two_sleepers 1)"
  by (simp add: uthread_spawn_def maskSignals_def unmaskSignals_def createThread_def
        liveCount_def addThread_def ok_os_def os_at_def init_state_def sysError_def upt_rec
        handleQuantumTimeout_def whosNextTimeout_def switchContext_def vTimer_start_def
        getRunning_def newHead_def uthread_sleep_def calcWakUpTimeval_def timeradd_def
        narrow_int_def peek_def putThreadToSleep_def whosNextSleep_def whosNextBlock_def
        rTimer_start_def two_sleepers_def sleptThread_def newThread_def mainThread_def tv_less_def
        signed_divide_int_def signed_modulo_int_def Let_def fun_eq_iff)

text \<open>
  Claim C2 on the code. Thread 1 is due now and thread 2 one second later: the handler
  restarts the real timer with \<open>1000000000\<close> (the delay in nanoseconds), where the delay
  in microseconds is \<open>1000000\<close>; \<^verbatim>\<open>uthread_sleep\<close> starts the same timer with
  microseconds (\<open>two_sleepers_reached\<close>: a sleep of \<open>1000000\<close> leaves \<open>Some 1000000\<close>).
  When thread 2 is due three seconds later, the nanosecond delay does not fit the
  \<^verbatim>\<open>int totalTime\<close>, the narrowed value is negative, and the handler wakes thread 2 at
  once and starts no timer.
\<close>

theorem wake_delay_divergence:
  "handleSleepTimeout (os_at 100) SIGALRM (two_sleepers 1) =
     Returned () []
       ((two_sleepers 1)\<lparr>threads := (threads (two_sleepers 1))(1 \<mapsto> ranThread),
                         ready := [0, 1],
                         sleepingThreads := [\<lparr>id_w = 2, awaken_tv = \<lparr>tv_sec = 101, tv_usec = 0\<rparr>\<rparr>],
                         rTimer := Some 1000000000\<rparr>) \<and>
   usec_until \<lparr>tv_sec = 101, tv_usec = 0\<rparr> \<lparr>tv_sec = 100, tv_usec = 0\<rparr> = 1000000 \<and>
   handleSleepTimeout (os_at 100) SIGALRM (two_sleepers 3) =
     Returned () []
       ((two_sleepers 3)\<lparr>threads := (threads (two_sleepers 3))(1 \<mapsto> ranThread, 2 \<mapsto> ranThread),
                         ready := [0, 1, 2],
                         sleepingThreads := []\<rparr>) \<and>
   usec_until \<lparr>tv_sec = 103, tv_usec = 0\<rparr> \<lparr>tv_sec = 100, tv_usec = 0\<rparr> = 3000000"
  by (simp add: handleSleepTimeout_def wakeLoop.simps wakeHead_def wakeThread_def
        isThreadBlocked_def addThread_def peek_def pop_def totalTime_of_def narrow_int_def
        rTimer_start_def CONVERT_CONST_SEC_TO_NSEC_def CONVERT_CONST_MSEC_TO_NSEC_def
        os_at_def ok_os_def two_sleepers_def sleptThread_def ranThread_def usec_until_def
        Let_def fun_eq_iff)

section \<open>The invariant is established by init and kept by every event\<close>

lemma wf_stateD:
  assumes "wf_state s"
  obtains (wf) rest where "ready s = running s # rest" "running s \<notin> set rest" "distinct rest"
    "0 = running s \<or> 0 \<in> set rest"
    "\<forall>tid \<in> set (running s # rest).
       \<exists>t. threads s tid = Some t \<and> \<not> isBlocked t \<and> \<not> isSleeping t"
    "\<And>tid t. threads s tid = Some t \<Longrightarrow> 0 \<le> quants t"
    "\<And>t. threads s (running s) = Some t \<Longrightarrow> 1 \<le> quants t"
proof -
  from assms obtain rest where r: "ready s = running s # rest"
    by (auto simp: wf_state_def)
  show thesis
  proof (rule that[of rest])
    show "ready s = running s # rest" by (rule r)
    show "running s \<notin> set rest" "distinct rest" "0 = running s \<or> 0 \<in> set rest"
      using assms r by (auto simp: wf_state_def)
    show "\<forall>tid \<in> set (running s # rest).
       \<exists>t. threads s tid = Some t \<and> \<not> isBlocked t \<and> \<not> isSleeping t"
      using assms r unfolding wf_state_def by metis
    show "0 \<le> quants t" if "threads s tid = Some t" for tid t
      using assms that unfolding wf_state_def by blast
    show "1 \<le> quants t" if "threads s (running s) = Some t" for t
      using assms that unfolding wf_state_def by blast
  qed
qed

lemma wf_stateI:
  assumes "ready s = running s # rest" "running s \<notin> set rest" "distinct rest"
    "0 = running s \<or> 0 \<in> set rest"
    "\<forall>tid \<in> set (running s # rest).
       \<exists>t. threads s tid = Some t \<and> \<not> isBlocked t \<and> \<not> isSleeping t"
    "\<And>tid t. threads s tid = Some t \<Longrightarrow> 0 \<le> quants t"
    "\<And>t. threads s (running s) = Some t \<Longrightarrow> 1 \<le> quants t"
  shows "wf_state s"
  unfolding wf_state_def using assms by auto


lemma wf_getters:
  "wf_state s \<Longrightarrow> next_state (uthread_get_tid os s) = Some s' \<Longrightarrow> wf_state s'"
  "wf_state s \<Longrightarrow> next_state (uthread_get_total_quantums s) = Some s' \<Longrightarrow> wf_state s'"
  "wf_state s \<Longrightarrow> next_state (uthread_get_quantums os tid s) = Some s' \<Longrightarrow> wf_state s'"
  by (auto simp: uthread_get_tid_def uthread_get_total_quantums_def uthread_get_quantums_def
        maskSignals_def unmaskSignals_def exitProg_def Let_def split: if_splits)

lemma wf_quantum:
  assumes "wf_state s" "next_state (handleQuantumTimeout os sig s) = Some s'"
  shows "wf_state s'"
  using assms(1)
proof (cases rule: wf_stateD)
  case r: (wf rest)
  show ?thesis
  proof (cases "sig = SIGVTALRM")
    case False
    with assms show ?thesis by (simp add: handleQuantumTimeout_def)
  next
    case True
    show ?thesis
    proof (cases rest)
      case Nil
      from r(5) obtain t where t: "threads s (running s) = Some t"
        "\<not> isBlocked t" "\<not> isSleeping t" by auto
      from r(6) t have q: "0 \<le> quants t" by blast
      from assms(2) True Nil r(1) t have
        "s' = s\<lparr>vTimerStarts := Suc (vTimerStarts s), totalQuants := totalQuants s + 1,
                 ready := [running s], running := running s,
                 threads := (threads s)(running s \<mapsto> t\<lparr>quants := quants t + 1\<rparr>)\<rparr>"
        by (auto simp: handleQuantumTimeout_def exitProg_def whosNextTimeout_def newHead_def
              switchContext_def vTimer_start_def getRunning_def Let_def split: if_splits)
      then show ?thesis
        using r t q Nil by (intro wf_stateI[of _ "[]"]) (auto split: if_splits)
    next
      case (Cons n rest')
      from r(5) Cons obtain t where t: "threads s n = Some t"
        "\<not> isBlocked t" "\<not> isSleeping t" by auto
      from r(6) t have q: "0 \<le> quants t" by blast
      from r(2) Cons have ne: "n \<noteq> running s" by auto
      from assms(2) True Cons r(1) t ne have
        "s' = s\<lparr>vTimerStarts := Suc (vTimerStarts s), totalQuants := totalQuants s + 1,
                 ready := n # rest' @ [running s], running := n,
                 threads := (threads s)(n \<mapsto> t\<lparr>quants := quants t + 1\<rparr>)\<rparr>"
        by (auto simp: handleQuantumTimeout_def exitProg_def whosNextTimeout_def newHead_def
              switchContext_def vTimer_start_def getRunning_def Let_def split: if_splits)
      then show ?thesis
        using r t q Cons ne by (intro wf_stateI[of _ "rest' @ [running s]"]) (auto split: if_splits)
    qed
  qed
qed


lemma removeAll_rest: "distinct rest \<Longrightarrow> distinct (removeAll tid rest)"
  by (simp add: distinct_removeAll)

lemma wf_block:
  assumes "wf_state s" "next_state (uthread_block os tid s) = Some s'"
  shows "wf_state s'"
  using assms(1)
proof (cases rule: wf_stateD)
  case r: (wf rest)
  show ?thesis
  proof (cases "tid = running s")
    case True
    with assms r show ?thesis
      by (cases rest)
         (auto simp: uthread_block_def maskSignals_def unmaskSignals_def exitProg_def
            blockThread_def whosNextBlock_def switchContext_def vTimer_start_def
            getRunning_def newHead_def Let_def
            intro!: wf_stateI dest: r(6)
            split: if_splits option.splits)
  next
    case False
    with assms r show ?thesis
      by (auto simp: uthread_block_def maskSignals_def unmaskSignals_def exitProg_def
            blockThread_def whosNextBlock_def switchContext_def vTimer_start_def
            getRunning_def newHead_def Let_def distinct_removeAll
            intro!: wf_stateI[where rest = "removeAll tid rest"] dest: r(6)
            split: if_splits option.splits)
  qed
qed


lemma wf_terminate:
  assumes "wf_state s" "next_state (uthread_terminate os tid s) = Some s'"
  shows "wf_state s'"
  using assms(1)
proof (cases rule: wf_stateD)
  case r: (wf rest)
  show ?thesis
  proof (cases "tid = running s")
    case True
    with assms r show ?thesis
      by (cases rest)
         (auto simp: uthread_terminate_def maskSignals_def unmaskSignals_def exitProg_def
            killThread_def whosNextTermination_def switchContext_def vTimer_start_def
            getRunning_def newHead_def Let_def
            intro!: wf_stateI dest: r(6)
            split: if_splits option.splits)
  next
    case False
    with assms r show ?thesis
      by (auto simp: uthread_terminate_def maskSignals_def unmaskSignals_def exitProg_def
            killThread_def whosNextTermination_def switchContext_def vTimer_start_def
            getRunning_def newHead_def Let_def distinct_removeAll
            intro!: wf_stateI[where rest = "removeAll tid rest"] dest: r(6)
            split: if_splits option.splits)
  qed
qed

lemma wf_sleep:
  assumes "wf_state s" "next_state (uthread_sleep os usec s) = Some s'"
  shows "wf_state s'"
  using assms(1)
proof (cases rule: wf_stateD)
  case r: (wf rest)
  with assms show ?thesis
    by (cases rest)
       (auto simp: uthread_sleep_def maskSignals_def unmaskSignals_def exitProg_def
          putThreadToSleep_def whosNextSleep_def whosNextBlock_def switchContext_def
          vTimer_start_def rTimer_start_def getRunning_def newHead_def Let_def
          intro!: wf_stateI dest: r(6)
          split: if_splits option.splits)
qed

lemma wf_state_other_fields [simp]:
  "wf_state (s\<lparr>sleepingThreads := l\<rparr>) = wf_state s"
  "wf_state (s\<lparr>rTimer := d\<rparr>) = wf_state s"
  "wf_state (s\<lparr>vTimerStarts := n\<rparr>) = wf_state s"
  "wf_state (s\<lparr>totalQuants := k\<rparr>) = wf_state s"
  by (simp_all add: wf_state_def)

lemma wf_flag_upd:
  assumes "wf_state s" "threads s tid = Some t" "quants t' = quants t"
    "tid \<in> set (ready s) \<Longrightarrow> \<not> isBlocked t' \<and> \<not> isSleeping t'"
  shows "wf_state (s\<lparr>threads := (threads s)(tid \<mapsto> t')\<rparr>)"
  using assms(1)
proof (cases rule: wf_stateD)
  case r: (wf rest)
  from r(6) assms(2,3) have q: "0 \<le> quants t'" by simp
  from r(7) assms(2,3) have q1: "tid = running s \<Longrightarrow> 1 \<le> quants t'" by simp
  from r assms(2-4) q q1 show ?thesis
    by (intro wf_stateI[where rest = rest]) (auto dest: r(6) split: if_splits)
qed

lemma wf_addThread:
  assumes "wf_state s" "threads s tid = Some t" "\<not> isBlocked t" "\<not> isSleeping t"
  shows "wf_state (addThread tid s)"
proof (cases "tid \<in> set (ready s)")
  case True
  with assms(1) show ?thesis by (simp add: addThread_def)
next
  case False
  from assms(1) show ?thesis
  proof (cases rule: wf_stateD)
    case r: (wf rest)
    with assms(2-4) False show ?thesis
      by (simp add: addThread_def, intro wf_stateI[where rest = "rest @ [tid]"])
         (auto dest: r(6))
  qed
qed

lemma createThread_cases:
  "createThread os s = (-1, s) \<or> createThread os s = (sysError, s) \<or>
   (\<exists>i. 1 \<le> i \<and> threads s i = None \<and>
        createThread os s = (i, s\<lparr>threads := (threads s)(i \<mapsto> newThread)\<rparr>))"
  by (auto simp: createThread_def find_Some_iff split: option.splits)

lemma wf_spawn:
  assumes "wf_state s" "next_state (uthread_spawn os s) = Some s'"
  shows "wf_state s'"
proof -
  consider "createThread os s = (-1, s)" | "createThread os s = (sysError, s)"
    | i where "1 \<le> i" "threads s i = None"
        "createThread os s = (i, s\<lparr>threads := (threads s)(i \<mapsto> newThread)\<rparr>)"
    using createThread_cases by blast
  then show ?thesis
  proof cases
    case 1
    with assms show ?thesis
      by (auto simp: uthread_spawn_def maskSignals_def unmaskSignals_def exitProg_def
            sysError_def Let_def split: if_splits)
  next
    case 2
    with assms show ?thesis
      by (auto simp: uthread_spawn_def maskSignals_def unmaskSignals_def exitProg_def
            sysError_def Let_def split: if_splits)
  next
    case 3
    let ?s1 = "s\<lparr>threads := (threads s)(i \<mapsto> newThread)\<rparr>"
    from assms(1) have "wf_state ?s1"
    proof (cases rule: wf_stateD)
      case r: (wf rest)
      with 3(2) show ?thesis
        by (intro wf_stateI[where rest = rest])
           (auto simp: newThread_def dest: r(6) split: if_splits)
    qed
    then have "wf_state (addThread i ?s1)"
      by (rule wf_addThread[where t = newThread]) (simp_all add: newThread_def)
    with assms(2) 3 show ?thesis
      by (auto simp: uthread_spawn_def maskSignals_def unmaskSignals_def exitProg_def
            sysError_def split: if_splits)
  qed
qed

lemma wf_resume:
  assumes "wf_state s" "next_state (uthread_resume os tid s) = Some s'"
  shows "wf_state s'"
proof (cases "threads s tid")
  case None
  with assms show ?thesis
    by (auto simp: uthread_resume_def maskSignals_def unmaskSignals_def exitProg_def
          unBlockThread_def Let_def split: if_splits)
next
  case (Some t)
  let ?s1 = "s\<lparr>threads := (threads s)(tid \<mapsto> t\<lparr>isBlocked := False\<rparr>)\<rparr>"
  have in_ready: "\<not> isSleeping t" if "tid \<in> set (ready s)"
    using assms(1) that Some by (auto simp: wf_state_def)
  have s1: "wf_state ?s1"
    using assms(1) Some by (rule wf_flag_upd) (auto dest: in_ready)
  have s2: "wf_state (addThread tid ?s1)" if "\<not> isSleeping t"
    using s1 by (rule wf_addThread[where t = "t\<lparr>isBlocked := False\<rparr>"]) (simp_all add: that)
  from assms(2) Some s1 s2 show ?thesis
    by (auto simp: uthread_resume_def maskSignals_def unmaskSignals_def exitProg_def
          unBlockThread_def isThreadAsleep_def split: if_splits)
qed

lemma wf_wakeHead:
  assumes "wf_state s"
  shows "wf_state (wakeHead s)"
proof (cases "threads s (id_w (hd (sleepingThreads s)))")
  case None
  with assms show ?thesis
    by (simp add: wakeHead_def wakeThread_def pop_def)
next
  case (Some t)
  let ?tid = "id_w (hd (sleepingThreads s))"
  let ?s1 = "s\<lparr>sleepingThreads := pop (sleepingThreads s)\<rparr>"
  let ?s2 = "?s1\<lparr>threads := (threads ?s1)(?tid \<mapsto> t\<lparr>isSleeping := False\<rparr>)\<rparr>"
  have in_ready: "\<not> isBlocked t" if "?tid \<in> set (ready s)"
    using assms(1) that Some by (auto simp: wf_state_def)
  have s2: "wf_state ?s2"
    by (rule wf_flag_upd) (use assms Some in \<open>auto dest: in_ready\<close>)
  have s3: "wf_state (addThread ?tid ?s2)" if "\<not> isBlocked t"
    using s2 by (rule wf_addThread[where t = "t\<lparr>isSleeping := False\<rparr>"]) (simp_all add: that)
  from Some s2 s3 show ?thesis
    by (auto simp: wakeHead_def wakeThread_def isThreadBlocked_def Let_def)
qed

lemma wf_wakeLoop:
  "wf_state s \<Longrightarrow> next_state (wakeLoop os n s) = Some s' \<Longrightarrow> wf_state s'"
proof (induction os n s rule: wakeLoop.induct)
  case (1 os inLoop s)
  from "1.prems"(2) "1.prems"(1) "1.IH" show ?case
    by (subst (asm) wakeLoop.simps)
       (auto simp: wf_wakeHead rTimer_start_def Let_def simp del: sleepingThreads_wakeHead
          split: if_splits option.splits)
qed

lemma wf_sleep_handler:
  "wf_state s \<Longrightarrow> next_state (handleSleepTimeout os sig s) = Some s' \<Longrightarrow> wf_state s'"
  by (auto simp: handleSleepTimeout_def dest: wf_wakeLoop split: if_splits)

lemma wf_exec: "wf_state s \<Longrightarrow> exec os e s = Some s' \<Longrightarrow> wf_state s'"
  by (cases e)
     (auto dest: wf_spawn wf_terminate wf_block wf_resume wf_sleep wf_getters wf_quantum
        wf_sleep_handler)

lemma wf_run: "wf_state s \<Longrightarrow> run os es s = Some s' \<Longrightarrow> wf_state s'"
  by (induction es arbitrary: s) (auto dest: wf_exec split: option.splits)

section \<open>The global quantum counter\<close>

















lemma slept1_state_reached:
  "uthread_sleep ok_os 1000000 running1_state = Switched [] slept1_state"
  by (simp add: uthread_sleep_def maskSignals_def calcWakUpTimeval_def timeradd_def
        narrow_int_def peek_def putThreadToSleep_def whosNextSleep_def whosNextBlock_def
        switchContext_def vTimer_start_def rTimer_start_def getRunning_def newHead_def
        ok_os_def running1_state_def slept1_state_def sleptThread_def ranThread_def
        mainThread_def signed_divide_int_def signed_modulo_int_def Let_def fun_eq_iff)


section \<open>Idempotence of block and resume\<close>

lemma thread_flag_same:
  "\<not> isBlocked t \<Longrightarrow> t\<lparr>isBlocked := False\<rparr> = t"
  "isBlocked t \<Longrightarrow> t\<lparr>isBlocked := True\<rparr> = t"
  by (cases t; simp)+

lemma threads_upd_same: "threads s tid = Some t \<Longrightarrow> s\<lparr>threads := (threads s)(tid \<mapsto> t)\<rparr> = s"
  by (simp add: fun_upd_idem)

text \<open>
  Claim C4. In a state of the running library, \<^verbatim>\<open>uthread_resume\<close> of an existing
  thread that is not blocked and is running or in the ready queue returns 0 and changes
  nothing, and \<^verbatim>\<open>uthread_block\<close> of a thread that is already blocked returns 0 and
  changes nothing; after any call of resume or block no id stands twice in the ready
  queue.
\<close>

theorem block_resume_idempotent:
  assumes "wf_state s" "mask_ok os" "unmask_ok os" "threads s tid = Some t"
  shows "(\<not> isBlocked t \<and> (tid = running s \<or> tid \<in> set (ready s)) \<longrightarrow>
            uthread_resume os tid s = Returned 0 [] s) \<and>
         (isBlocked t \<longrightarrow> uthread_block os tid s = Returned 0 [] s) \<and>
         (\<forall>s'. next_state (uthread_resume os tid s) = Some s' \<or>
               next_state (uthread_block os tid s) = Some s' \<longrightarrow> distinct (ready s'))"
proof (intro conjI impI allI)
  assume a: "\<not> isBlocked t \<and> (tid = running s \<or> tid \<in> set (ready s))"
  with assms(1) have in_ready: "tid \<in> set (ready s)" by (auto simp: wf_state_def)
  with assms(1,4) have "\<not> isSleeping t" by (auto simp: wf_state_def)
  with a in_ready assms(2-4) show "uthread_resume os tid s = Returned 0 [] s"
    by (simp add: uthread_resume_def maskSignals_def unmaskSignals_def unBlockThread_def
          isThreadAsleep_def addThread_def thread_flag_same threads_upd_same)
next
  assume b: "isBlocked t"
  with assms(1,4) have not_ready: "tid \<notin> set (ready s)" by (auto simp: wf_state_def)
  with assms(1) have ne: "tid \<noteq> running s" "tid \<noteq> 0" by (auto simp: wf_state_def)
  with b not_ready assms(2-4) show "uthread_block os tid s = Returned 0 [] s"
    by (simp add: uthread_block_def maskSignals_def unmaskSignals_def blockThread_def
          whosNextBlock_def getRunning_def thread_flag_same threads_upd_same)
next
  fix s'
  assume "next_state (uthread_resume os tid s) = Some s' \<or>
          next_state (uthread_block os tid s) = Some s'"
  with assms(1) have "wf_state s'" using wf_resume wf_block by blast
  then show "distinct (ready s')" by (simp add: wf_state_def)
qed


lemma blocked1_state_reached:
  "uthread_block ok_os 1 spawned_state = Returned 0 [] blocked1_state"
  by (simp add: uthread_block_def maskSignals_def unmaskSignals_def blockThread_def
        whosNextBlock_def getRunning_def ok_os_def spawned_state_def blocked1_state_def
        newThread_def fun_eq_iff)

lemma wf_blocked1_state: "wf_state blocked1_state"
  using wf_block[of spawned_state ok_os 1 blocked1_state] wf_spawned_state
    blocked1_state_reached by simp

theorem block_resume_idempotent_witness:
  "wf_state spawned_state \<and> wf_state blocked1_state \<and>
   threads spawned_state 1 = Some newThread \<and> 1 \<in> set (ready spawned_state) \<and>
   uthread_resume ok_os 1 spawned_state = Returned 0 [] spawned_state \<and>
   uthread_resume ok_os 0 spawned_state = Returned 0 [] spawned_state \<and>
   uthread_block ok_os 1 blocked1_state = Returned 0 [] blocked1_state \<and>
   distinct (ready spawned_state) \<and> distinct (ready blocked1_state)"
  using block_resume_idempotent [of spawned_state ok_os 1 newThread]
        block_resume_idempotent [of spawned_state ok_os 0 mainThread]
        block_resume_idempotent [of blocked1_state ok_os 1
           "\<lparr>quants = 0, isBlocked = True, isSleeping = False\<rparr>"]
        wf_spawned_state wf_blocked1_state
  by (simp add: ok_os_def spawned_state_def blocked1_state_def newThread_def mainThread_def)

section \<open>Effect of the wake handler\<close>

lemma wake_effect_step:
  assumes "sleepingThreads s = e # rest"
  shows "wake_effect s (wakeHead s) [e]"
proof -
  have "same_scalars s (wakeHead s)"
    by (simp add: same_scalars_def wakeHead_def wakeThread_def addThread_def pop_def Let_def
          split: option.splits)
  moreover have "same_threads s (wakeHead s)"
    by (auto simp: same_threads_def wakeHead_def wakeThread_def addThread_def pop_def Let_def
          split: option.splits)
  moreover have "\<exists>woken. ready (wakeHead s) = ready s @ woken \<and> set woken \<subseteq> id_w ` set [e]"
    using assms
    by (auto simp: wakeHead_def wakeThread_def addThread_def pop_def Let_def
          split: option.splits)
  moreover have "woke s (wakeHead s) [e]"
    using assms
    by (auto simp: woke_def wakeHead_def wakeThread_def addThread_def isThreadBlocked_def
          pop_def Let_def split: option.splits if_splits)
  ultimately show ?thesis
    using assms by (simp add: wake_effect_def)
qed

lemma same_scalars_trans: "same_scalars s s1 \<Longrightarrow> same_scalars s1 s' \<Longrightarrow> same_scalars s s'"
  by (simp add: same_scalars_def)

lemma same_threads_trans: "same_threads s s1 \<Longrightarrow> same_threads s1 s' \<Longrightarrow> same_threads s s'"
  unfolding same_threads_def by (metis (full_types))

lemma wake_effect_trans:
  assumes "wake_effect s s1 p1" "wake_effect s1 s' p2"
  shows "wake_effect s s' (p1 @ p2)"
proof -
  from assms obtain w1 w2 where w:
    "ready s1 = ready s @ w1" "set w1 \<subseteq> id_w ` set p1"
    "ready s' = ready s1 @ w2" "set w2 \<subseteq> id_w ` set p2"
    by (auto simp: wake_effect_def)
  from assms have st: "same_threads s s1" "same_threads s1 s'"
    by (simp_all add: wake_effect_def)
  from assms have wk: "woke s s1 p1" "woke s1 s' p2"
    by (simp_all add: wake_effect_def)
  have "ready s' = ready s @ (w1 @ w2) \<and> set (w1 @ w2) \<subseteq> id_w ` set (p1 @ p2)"
    using w by auto
  moreover have "woke s s' (p1 @ p2)"
    unfolding woke_def
  proof (intro conjI ballI allI impI)
    fix e t'
    assume e: "e \<in> set (p1 @ p2)" and t': "threads s' (id_w e) = Some t'"
    show "\<not> isSleeping t'"
    proof (cases "e \<in> set p2")
      case True
      with wk(2) t' show ?thesis by (auto simp: woke_def)
    next
      case False
      with e have e1: "e \<in> set p1" by simp
      from st(2) t' obtain t1 where t1: "threads s1 (id_w e) = Some t1"
        "isSleeping t' \<longrightarrow> isSleeping t1"
        unfolding same_threads_def by (cases "threads s1 (id_w e)") fastforce+
      with wk(1) e1 show ?thesis by (auto simp: woke_def)
    qed
  next
    fix e t'
    assume e: "e \<in> set (p1 @ p2)" and t': "threads s' (id_w e) = Some t'"
      and nb: "\<not> isBlocked t'"
    show "id_w e \<in> set (ready s')"
    proof (cases "e \<in> set p2")
      case True
      with wk(2) t' nb show ?thesis by (auto simp: woke_def)
    next
      case False
      with e have e1: "e \<in> set p1" by simp
      from st(2) t' obtain t1 where t1: "threads s1 (id_w e) = Some t1"
        "isBlocked t' = isBlocked t1"
        unfolding same_threads_def by (cases "threads s1 (id_w e)") fastforce+
      with wk(1) e1 nb have "id_w e \<in> set (ready s1)" by (auto simp: woke_def)
      with w(3) show ?thesis by simp
    qed
  next
    fix tid
    assume a: "tid \<in> set (ready s') \<and> tid \<notin> set (ready s)"
    show "\<exists>t'. threads s' tid = Some t' \<and> \<not> isBlocked t' \<and> \<not> isSleeping t'"
    proof (cases "tid \<in> set (ready s1)")
      case False
      with a wk(2) show ?thesis by (auto simp: woke_def)
    next
      case True
      with a wk(1) obtain t1 where t1: "threads s1 tid = Some t1" "\<not> isBlocked t1"
        "\<not> isSleeping t1" by (auto simp: woke_def)
      with st(2) show ?thesis unfolding same_threads_def by fastforce
    qed
  qed
  ultimately show ?thesis
    using assms same_scalars_trans[of s s1 s'] same_threads_trans[of s s1 s']
    unfolding wake_effect_def by (metis append.assoc)
qed

lemma wake_effect_rTimer:
  "wake_effect s s' p \<Longrightarrow> wake_effect s (rTimer_start d s') p"
  by (simp add: wake_effect_def same_scalars_def same_threads_def woke_def rTimer_start_def)

lemma wakeLoop_effect:
  "sleepingThreads s \<noteq> [] \<Longrightarrow>
     \<exists>s' popped. wakeLoop os n s = Returned () [] s' \<and> popped \<noteq> [] \<and> wake_effect s s' popped"
proof (induction os n s rule: wakeLoop.induct)
  case (1 os inLoop s)
  from "1.prems" obtain e rest where er: "sleepingThreads s = e # rest"
    by (cases "sleepingThreads s") auto
  note step = wake_effect_step[OF er]
  show ?case
  proof (cases rest)
    case Nil
    with er step show ?thesis
      by (subst wakeLoop.simps) (auto simp: peek_def)
  next
    case (Cons nextToWake rest')
    let ?totalTime = "totalTime_of (awaken_tv nextToWake) (gettimeofday os (Suc inLoop))"
    show ?thesis
    proof (cases "?totalTime \<le> 0")
      case False
      with er Cons wake_effect_rTimer[OF step] show ?thesis
        by (subst wakeLoop.simps) (auto simp: peek_def Let_def)
    next
      case True
      have "\<exists>s' popped. wakeLoop os (Suc inLoop) (wakeHead s) = Returned () [] s' \<and>
              popped \<noteq> [] \<and> wake_effect (wakeHead s) s' popped"
        by (rule "1.IH"[OF _ refl _ refl refl True])
           (use er Cons in \<open>simp_all add: peek_def\<close>)
      then obtain s' popped where
        "wakeLoop os (Suc inLoop) (wakeHead s) = Returned () [] s'"
        "wake_effect (wakeHead s) s' popped" by blast
      with er Cons True wake_effect_trans[OF step] show ?thesis
        by (subst wakeLoop.simps) (auto simp: peek_def Let_def)
    qed
  qed
qed

section \<open>The wake handler does not switch\<close>




section \<open>Blocked and sleeping\<close>

lemma wf_slept1_state: "wf_state slept1_state"
  using wf_sleep[of running1_state ok_os 1000000 slept1_state] wf_running1_state
    slept1_state_reached by simp

lemma blocked_slept_state_reached:
  "uthread_block ok_os 1 slept1_state = Returned 0 [] blocked_slept_state"
  by (simp add: uthread_block_def maskSignals_def unmaskSignals_def blockThread_def
        whosNextBlock_def getRunning_def ok_os_def slept1_state_def blocked_slept_state_def
        sleptThread_def blocked_sleeper_def fun_eq_iff)

lemma wf_blocked_slept_state: "wf_state blocked_slept_state"
  using wf_block[of slept1_state ok_os 1 blocked_slept_state] wf_slept1_state
    blocked_slept_state_reached by simp

lemma woken_blocked_state_reached:
  "handleSleepTimeout ok_os SIGALRM blocked_slept_state = Returned () [] woken_blocked_state"
  by (simp add: handleSleepTimeout_def wakeLoop.simps wakeHead_def wakeThread_def
        isThreadBlocked_def addThread_def peek_def pop_def
        ok_os_def slept1_state_def blocked_slept_state_def woken_blocked_state_def
        blocked_sleeper_def Let_def fun_eq_iff)

lemma resume_blocked_slept:
  "uthread_resume ok_os 1 blocked_slept_state = Returned 0 [] slept1_state"
  by (simp add: uthread_resume_def maskSignals_def unmaskSignals_def unBlockThread_def
        isThreadAsleep_def ok_os_def slept1_state_def blocked_slept_state_def
        blocked_sleeper_def sleptThread_def fun_eq_iff)

text \<open>
  Claim C6. \<^verbatim>\<open>uthread_resume\<close> of a thread that is still sleeping returns 0, clears
  only its blocked flag and does not touch the ready queue. The wake handler clears the
  sleeping flag of the thread of every entry it pops and puts that thread into the ready
  queue only if it is not blocked: every thread the handler adds to the queue is neither
  blocked nor sleeping. After any event every thread in the ready queue has both flags
  clear.
\<close>

theorem blocked_and_sleeping:
  assumes "mask_ok os" "unmask_ok os"
  shows "(threads s tid = Some t \<and> isSleeping t \<longrightarrow>
            uthread_resume os tid s =
              Returned 0 [] (s\<lparr>threads := (threads s)(tid \<mapsto> t\<lparr>isBlocked := False\<rparr>)\<rparr>)) \<and>
         (handleSleepTimeout os sig s = Returned () out s' \<longrightarrow>
            (\<exists>popped. sleepingThreads s = popped @ sleepingThreads s' \<and> woke s s' popped)) \<and>
         (wf_state s \<and> exec os e s = Some s'' \<longrightarrow>
            (\<forall>x \<in> set (ready s''). \<exists>t'. threads s'' x = Some t' \<and> \<not> isBlocked t' \<and>
                                       \<not> isSleeping t'))"
proof (intro conjI impI)
  assume "threads s tid = Some t \<and> isSleeping t"
  with assms show "uthread_resume os tid s =
      Returned 0 [] (s\<lparr>threads := (threads s)(tid \<mapsto> t\<lparr>isBlocked := False\<rparr>)\<rparr>)"
    by (simp add: uthread_resume_def maskSignals_def unmaskSignals_def unBlockThread_def
          isThreadAsleep_def)
next
  assume r: "handleSleepTimeout os sig s = Returned () out s'"
  show "\<exists>popped. sleepingThreads s = popped @ sleepingThreads s' \<and> woke s s' popped"
  proof (cases "sig = SIGALRM")
    case False
    with r have "s' = s" by (simp add: handleSleepTimeout_def)
    then show ?thesis by (auto simp: woke_def)
  next
    case True
    with r have l: "wakeLoop os 0 s = Returned () out s'"
      by (simp add: handleSleepTimeout_def)
    then have "sleepingThreads s \<noteq> []"
      by (subst (asm) wakeLoop.simps) (auto split: if_splits)
    from wakeLoop_effect[OF this, of os 0] l show ?thesis
      by (auto simp: wake_effect_def)
  qed
next
  assume "wf_state s \<and> exec os e s = Some s''"
  then have "wf_state s''" using wf_exec by blast
  then show "\<forall>x \<in> set (ready s''). \<exists>t'. threads s'' x = Some t' \<and> \<not> isBlocked t' \<and>
                                       \<not> isSleeping t'"
    by (simp add: wf_state_def)
qed

theorem blocked_and_sleeping_witness:
  "threads blocked_slept_state 1 = Some blocked_sleeper \<and>
   uthread_resume ok_os 1 blocked_slept_state = Returned 0 [] slept1_state \<and>
   threads slept1_state 1 = Some sleptThread \<and> ready slept1_state = [0] \<and>
   handleSleepTimeout ok_os SIGALRM blocked_slept_state = Returned () [] woken_blocked_state \<and>
   woke blocked_slept_state woken_blocked_state (sleepingThreads blocked_slept_state) \<and>
   threads woken_blocked_state 1 = Some \<lparr>quants = 1, isBlocked = True, isSleeping = False\<rparr> \<and>
   ready woken_blocked_state = [0] \<and>
   wf_state blocked_slept_state \<and>
   exec ok_os (Resume 1) blocked_slept_state = Some slept1_state"
  using blocked_and_sleeping [of ok_os blocked_slept_state 1 blocked_sleeper SIGALRM "[]"
          woken_blocked_state "Resume 1" slept1_state]
        woken_blocked_state_reached resume_blocked_slept wf_blocked_slept_state
  by (auto simp: ok_os_def slept1_state_def blocked_slept_state_def woken_blocked_state_def
        blocked_sleeper_def sleptThread_def)

section \<open>Terminating a sleeping thread\<close>





end
